theory Spec2Isabelle
  imports Complex_Main "HOL-Library.FSet" "HOL-Library.Sublist"
begin

chapter \<open>Resilient retrieval and recovery engine: a shallow embedding\<close>

text \<open>
  Python strings are modelled as \<^typ>\<open>string\<close>, one \<^typ>\<open>char\<close> per code point
  (code points below 256). Python's unbounded integers are \<^typ>\<open>int\<close>, lengths
  are \<^typ>\<open>nat\<close>, and Python floats are modelled by \<^typ>\<open>real\<close>.
\<close>

section \<open>Blocker classification (tools/phase1/phase1\_oilbot.py)\<close>

text \<open>
  The run-health dictionary, restricted to the three keys that
  \<open>should_flip_to_archive\<close> reads. \<open>health.get("why_flip")\<close> is \<open>None\<close> when
  the key is absent; the two flags are read for their truth value.
\<close>

record health =
  auth_redirect :: bool
  cf_detected :: bool
  why_flip :: "string option"

definition should_flip_to_archive :: "health \<Rightarrow> int \<Rightarrow> int \<Rightarrow> string option" where
  "should_flip_to_archive h card_count jsonld_count =
     (if auth_redirect h then Some ''auth_redirect''
      else if cf_detected h then Some ''cf_challenge''
      else if why_flip h = Some ''cookie_wall'' \<and> card_count = 0 \<and> jsonld_count = 0
        then Some ''cookie_wall''
      else if why_flip h = Some ''store_context_failed'' then Some ''store_context_failed''
      else if card_count < 5 \<and> jsonld_count = 0 then Some ''too_few_cards''
      else None)"

section \<open>Pagination stall tracker (tools/phase1/paging.py)\<close>

record PagerTracker =
  seen :: "string fset"
  stalls :: int
  min_growth :: int
  max_stalls :: int

definition PagerTracker_init :: "int \<Rightarrow> int \<Rightarrow> PagerTracker" where
  "PagerTracker_init mg ms = \<lparr>seen = {||}, stalls = 0, min_growth = mg, max_stalls = ms\<rparr>"

text \<open>
  \<open>add_batch\<close> adds every truthy (non-empty) key of the batch to the seen set and
  compares the size of the set before and after.
\<close>

definition add_batch :: "PagerTracker \<Rightarrow> string list \<Rightarrow> bool \<times> PagerTracker" where
  "add_batch t product_keys =
     (let n_before = int (fcard (seen t));
          seen' = fold (\<lambda>k s. if k \<noteq> [] then finsert k s else s) product_keys (seen t);
          growth = int (fcard seen') - n_before
      in if growth < min_growth t
         then (False, t\<lparr>seen := seen', stalls := stalls t + 1\<rparr>)
         else (True, t\<lparr>seen := seen', stalls := 0\<rparr>))"

definition should_stop :: "PagerTracker \<Rightarrow> bool" where
  "should_stop t \<longleftrightarrow> stalls t \<ge> max_stalls t"

section \<open>Selector promotion policy (tools/phase1/selector\_wizard.py)\<close>

record Candidate =
  id' :: string
  css :: string
  last_score :: real
  wins_in_a_row :: int

record EvalMetrics =
  cards :: int
  price_ok_rate :: real
  qty_ok_rate :: real
  dup_rate :: real

definition PROMOTE_MARGIN :: real where
  "PROMOTE_MARGIN = 0.05"

definition REQUIRED_WINS :: int where
  "REQUIRED_WINS = 2"

text \<open>
  One entry of the candidates registry, \<open>{"css": ..., "wins": ...}\<close>, and the persisted
  policy \<open>{"selectors": {"active": ..., "candidates": ...}}\<close>. The policy files are
  modelled as a store from site codes to policies; a site without a file has no entry.
\<close>

record reg_entry =
  reg_css :: string
  wins :: int

record policy =
  active :: "string option"
  candidates :: "string \<rightharpoonup> reg_entry"

type_synonym policy_store = "string \<rightharpoonup> policy"

definition load_policy :: "policy_store \<Rightarrow> string \<Rightarrow> policy" where
  "load_policy store code =
     (case store code of
        Some p \<Rightarrow> p
      | None \<Rightarrow> \<lparr>active = None, candidates = Map.empty\<rparr>)"

definition save_policy :: "policy_store \<Rightarrow> string \<Rightarrow> policy \<Rightarrow> policy_store" where
  "save_policy store code p = store(code \<mapsto> p)"

definition shadow_score :: "EvalMetrics \<Rightarrow> real" where
  "shadow_score m = 0.5 * price_ok_rate m + 0.5 * qty_ok_rate m"

definition gates_pass :: "EvalMetrics \<Rightarrow> bool" where
  "gates_pass m \<longleftrightarrow>
     cards m \<ge> 5 \<and> price_ok_rate m \<ge> 0.70 \<and> qty_ok_rate m \<ge> 0.50 \<and> dup_rate m \<le> 0.20"

text \<open>The audit record written next to the policy (scores, which are only rounded for
  display, are left out).\<close>

record explanation =
  active_before :: string
  challenger_wins :: "string \<rightharpoonup> int"
  promoted :: bool
  active_after :: "string option"
  gates :: "bool \<times> bool \<times> bool \<times> bool"

text \<open>The loop that identifies the best challenger; the state is \<open>(best, best_score)\<close>.\<close>

fun best_challenger ::
  "real \<Rightarrow> (string \<rightharpoonup> EvalMetrics) \<Rightarrow> Candidate list
     \<Rightarrow> Candidate option \<times> real \<Rightarrow> Candidate option \<times> real" where
  "best_challenger base_score challenger_metrics [] st = st"
| "best_challenger base_score challenger_metrics (c # cs) (best, best_score) =
     (case challenger_metrics (id' c) of
        None \<Rightarrow> best_challenger base_score challenger_metrics cs (best, best_score)
      | Some m \<Rightarrow>
          (let s = shadow_score m in
           if s > best_score \<and> (s - base_score) \<ge> PROMOTE_MARGIN \<and> gates_pass m
           then best_challenger base_score challenger_metrics cs (Some c, s)
           else best_challenger base_score challenger_metrics cs (best, best_score)))"

text \<open>
  \<open>maybe_promote\<close>. The registry is rebuilt on every call, from the baseline and the
  challengers, each with \<open>wins = 0\<close>, and replaces the loaded one before the consecutive
  win rule is applied. A registry lookup that would raise \<open>KeyError\<close> gives \<open>None\<close>.
\<close>

definition maybe_promote ::
  "policy_store \<Rightarrow> string \<Rightarrow> Candidate \<Rightarrow> Candidate list \<Rightarrow> EvalMetrics
     \<Rightarrow> (string \<rightharpoonup> EvalMetrics) \<Rightarrow> (Candidate \<times> explanation \<times> policy_store) option" where
  "maybe_promote store code baseline challengers baseline_metrics challenger_metrics =
     (let policy0 = load_policy store code;
          active_id = (case active policy0 of
                         None \<Rightarrow> id' baseline
                       | Some a \<Rightarrow> if a = [] then id' baseline else a);
          reg = fold (\<lambda>c r. r(id' c \<mapsto> \<lparr>reg_css = css c, wins = 0\<rparr>)) challengers
                  [id' baseline \<mapsto> \<lparr>reg_css = css baseline, wins = 0\<rparr>];
          policy1 = policy0\<lparr>candidates := reg\<rparr>;
          base_score = shadow_score baseline_metrics;
          best = fst (best_challenger base_score challenger_metrics challengers
                        (None, base_score));
          outcome =
            (case best of
               Some b \<Rightarrow>
                 (case candidates policy1 (id' b) of
                    None \<Rightarrow> None
                  | Some e \<Rightarrow>
                      (let w = wins e + 1;
                           policy2 = policy1\<lparr>candidates := (candidates policy1)(id' b \<mapsto> e\<lparr>wins := w\<rparr>)\<rparr>
                       in if w \<ge> REQUIRED_WINS
                          then Some (b, True,
                                 policy2\<lparr>active := Some (id' b),
                                   candidates := (\<lambda>k. if k \<noteq> id' b
                                       then map_option (\<lambda>x. x\<lparr>wins := 0\<rparr>) (candidates policy2 k)
                                       else candidates policy2 k)\<rparr>)
                          else Some (baseline, False, policy2)))
             | None \<Rightarrow>
                 Some (baseline, False,
                   policy1\<lparr>active := Some (id' baseline),
                     candidates := (\<lambda>k. if k \<noteq> id' baseline
                         then map_option (\<lambda>x. x\<lparr>wins := 0\<rparr>) (candidates policy1 k)
                         else candidates policy1 k)\<rparr>))
      in case outcome of
           None \<Rightarrow> None
         | Some (winner, was_promoted, policy3) \<Rightarrow>
             Some (winner,
               \<lparr>active_before = active_id,
                challenger_wins = (\<lambda>k. if k \<noteq> id' baseline
                    then map_option wins (candidates policy3 k) else None),
                promoted = was_promoted,
                active_after = active policy3,
                gates = (cards baseline_metrics \<ge> 5, price_ok_rate baseline_metrics \<ge> 0.70,
                         qty_ok_rate baseline_metrics \<ge> 0.50, dup_rate baseline_metrics \<le> 0.20)\<rparr>,
               save_policy store code policy3))"

subsection \<open>A two-round promotion scenario\<close>

text \<open>
  A site with no policy file, a baseline scoring \<open>0.70\<close> and one challenger scoring
  \<open>0.76\<close> that passes every gate, evaluated in two consecutive rounds with the same
  metrics.
\<close>

definition ex_baseline :: Candidate where
  "ex_baseline = \<lparr>id' = ''base'', css = ''.card'', last_score = 0, wins_in_a_row = 0\<rparr>"

definition ex_challenger :: Candidate where
  "ex_challenger = \<lparr>id' = ''ch1'', css = ''.tile'', last_score = 0, wins_in_a_row = 0\<rparr>"

definition ex_baseline_metrics :: EvalMetrics where
  "ex_baseline_metrics = \<lparr>cards = 10, price_ok_rate = 0.80, qty_ok_rate = 0.60, dup_rate = 0.10\<rparr>"

definition ex_challenger_metrics :: "string \<rightharpoonup> EvalMetrics" where
  "ex_challenger_metrics =
     [''ch1'' \<mapsto> \<lparr>cards = 10, price_ok_rate = 0.86, qty_ok_rate = 0.66, dup_rate = 0.10\<rparr>]"

definition ex_round1 :: "(Candidate \<times> explanation \<times> policy_store) option" where
  "ex_round1 = maybe_promote Map.empty ''site'' ex_baseline [ex_challenger]
                 ex_baseline_metrics ex_challenger_metrics"

definition ex_round2 :: "(Candidate \<times> explanation \<times> policy_store) option" where
  "ex_round2 =
     (case ex_round1 of
        None \<Rightarrow> None
      | Some (w, e, store1) \<Rightarrow>
          maybe_promote store1 ''site'' ex_baseline [ex_challenger]
            ex_baseline_metrics ex_challenger_metrics)"

section \<open>Python string helpers\<close>

text \<open>
  \<open>str.isspace\<close>, \<open>str.strip()\<close>, \<open>str.lower()\<close> and \<open>str.split(sep)\<close> for a
  one-character separator, on code points below 256.
\<close>

definition is_space :: "char \<Rightarrow> bool" where
  "is_space c \<longleftrightarrow> (of_char c :: nat) \<in> {9, 10, 11, 12, 13, 28, 29, 30, 31, 32, 133, 160}"

definition strip :: "string \<Rightarrow> string" where
  "strip s = rev (dropWhile is_space (rev (dropWhile is_space s)))"

definition lower_char :: "char \<Rightarrow> char" where
  "lower_char c =
     (let n = (of_char c :: nat)
      in if (65 \<le> n \<and> n \<le> 90) \<or> (192 \<le> n \<and> n \<le> 222 \<and> n \<noteq> 215)
         then char_of (n + 32) else c)"

definition lower :: "string \<Rightarrow> string" where
  "lower s = map lower_char s"

fun split_on :: "char \<Rightarrow> string \<Rightarrow> string list" where
  "split_on sep [] = [[]]"
| "split_on sep (x # xs) =
     (if x = sep then [] # split_on sep xs
      else (case split_on sep xs of
              w # ws \<Rightarrow> (x # w) # ws
            | [] \<Rightarrow> [[x]]))"

section \<open>Archive ladder (src/eopt/archives.py)\<close>

definition DEFAULT_PRIORITY :: "string list" where
  "DEFAULT_PRIORITY =
     [''wayback'', ''ghost'', ''memento'', ''arquivo'', ''ukwa'', ''archivetoday'', ''perma'']"

record ArchiveResult =
  ok :: bool
  source :: string
  url :: string
  status :: int
  html :: "string option"
  reason :: string

text \<open>\<open>_result\<close>: a result is ok when the status is in \<open>[200, 400)\<close> and the HTML is truthy.\<close>

definition result :: "string \<Rightarrow> string \<Rightarrow> int \<Rightarrow> string option \<Rightarrow> string \<Rightarrow> ArchiveResult" where
  "result src u st h why =
     \<lparr>ok = (200 \<le> st \<and> st < 400 \<and> h \<noteq> None \<and> h \<noteq> Some []),
      source = src, url = u, status = st, html = h, reason = why\<rparr>"

text \<open>
  The \<open>archives\<close> section of selectors.json as far as it is read here; \<open>None\<close> stands for
  a missing or unreadable file or a missing section.
\<close>

record archives_section =
  section_global_priority :: "string list option"
  section_timeout_ms :: "int option"

record archives_cfg =
  global_priority :: "string list"
  timeout_ms :: int

definition read_selectors_archives :: "archives_section option \<Rightarrow> archives_cfg" where
  "read_selectors_archives selectors_json =
     (case selectors_json of
        None \<Rightarrow> \<lparr>global_priority = DEFAULT_PRIORITY, timeout_ms = 5000\<rparr>
      | Some a \<Rightarrow>
          \<lparr>global_priority = (case section_global_priority a of
                                None \<Rightarrow> DEFAULT_PRIORITY | Some g \<Rightarrow> g),
           timeout_ms = (case section_timeout_ms a of None \<Rightarrow> 5000 | Some t \<Rightarrow> t)\<rparr>)"

text \<open>
  The first row of retailers.csv whose \<open>code\<close> or \<open>retailer\<close> column equals the site
  code, with the two columns that are read from it (\<open>None\<close> for an absent column).
\<close>

record retailer_row =
  archive_priority :: "string option"
  prefer_archive :: "string option"

text \<open>The site's archive-priority preference: the comma list of the row, each entry
  stripped and lower-cased, blank entries dropped.\<close>

definition parse_priority :: "string \<Rightarrow> string list" where
  "parse_priority raw = map (\<lambda>p. lower (strip p)) (filter (\<lambda>p. strip p \<noteq> []) (split_on CHR '','' raw))"

definition read_retailer_archive_overrides ::
  "retailer_row option \<Rightarrow> archives_section option \<Rightarrow> string list \<times> bool" where
  "read_retailer_archive_overrides row selectors_json =
     (let raw = (case row of
                   None \<Rightarrow> []
                 | Some r \<Rightarrow> strip (case archive_priority r of None \<Rightarrow> [] | Some a \<Rightarrow> a));
          pri = (if raw \<noteq> [] then Some (parse_priority raw) else None);
          prefer = (case row of
                      None \<Rightarrow> False
                    | Some r \<Rightarrow>
                        lower (strip (case prefer_archive r of None \<Rightarrow> [] | Some s \<Rightarrow> s))
                          = ''true'');
          arch_cfg = read_selectors_archives selectors_json
      in (case pri of None \<Rightarrow> global_priority arch_cfg | Some p \<Rightarrow> p, prefer))"

definition clean_target :: "string \<Rightarrow> string" where
  "clean_target u =
     (if take 7 u = ''http://'' \<or> take 8 u = ''https://'' then u
      else ''https://'' @ dropWhile (\<lambda>c. c = CHR ''/'') u)"

definition fetch_perma :: "string option \<Rightarrow> string \<Rightarrow> int \<Rightarrow> ArchiveResult" where
  "fetch_perma api_key target_url t_ms =
     (if api_key = None \<or> api_key = Some []
      then result ''perma'' (clean_target target_url) 460 None ''no_api_key''
      else result ''perma'' (clean_target target_url) 501 None ''not_implemented'')"

text \<open>
  The provider table. The six network adapters are the environment: \<open>net\<close> gives the
  result each of them returns for a target URL and timeout. \<open>fetch_perma\<close> only reads
  the \<open>PERMA_API_KEY\<close> variable.
\<close>

definition FETCHER_NAMES :: "string list" where
  "FETCHER_NAMES =
     [''wayback'', ''archivetoday'', ''ghost'', ''memento'', ''arquivo'', ''ukwa'', ''perma'']"

definition FETCHERS ::
  "(string \<Rightarrow> string \<Rightarrow> int \<Rightarrow> ArchiveResult) \<Rightarrow> string option
     \<Rightarrow> string \<Rightarrow> string \<Rightarrow> int \<Rightarrow> ArchiveResult" where
  "FETCHERS net api_key name = (if name = ''perma'' then fetch_perma api_key else net name)"

text \<open>\<open>priority or pri_csv or DEFAULT_PRIORITY\<close>, lower-cased.\<close>

definition chosen_priority :: "string list option \<Rightarrow> string list \<Rightarrow> string list" where
  "chosen_priority priority pri_csv =
     map lower (case priority of
                  Some p \<Rightarrow> if p \<noteq> [] then p else if pri_csv \<noteq> [] then pri_csv else DEFAULT_PRIORITY
                | None \<Rightarrow> if pri_csv \<noteq> [] then pri_csv else DEFAULT_PRIORITY)"

text \<open>The comprehension that caps the order to known providers and drops repeats.\<close>

fun cap_known :: "string set \<Rightarrow> string list \<Rightarrow> string list" where
  "cap_known seen_names [] = []"
| "cap_known seen_names (p # ps) =
     (if p \<in> set FETCHER_NAMES \<and> p \<notin> seen_names
      then p # cap_known (insert p seen_names) ps
      else cap_known seen_names ps)"

definition effective_order :: "string list option \<Rightarrow> string list \<Rightarrow> string list" where
  "effective_order priority pri_csv = cap_known {} (chosen_priority priority pri_csv)"

text \<open>
  The provider loop. Besides \<open>(best, attempts)\<close> the model returns the names of the
  adapters that were invoked, in order. The pause between providers is not modelled.
\<close>

definition usable :: "ArchiveResult \<Rightarrow> bool" where
  \<comment> \<open>the loop's stop test, \<open>res.ok and (res.html or "").strip()\<close>\<close>
  "usable res \<longleftrightarrow> ok res \<and> strip (case html res of None \<Rightarrow> [] | Some h \<Rightarrow> h) \<noteq> []"

fun ladder ::
  "(string \<Rightarrow> ArchiveResult) \<Rightarrow> string list \<Rightarrow> ArchiveResult list \<Rightarrow> string list
     \<Rightarrow> ArchiveResult option \<times> ArchiveResult list \<times> string list" where
  "ladder fn [] attempts invoked = (None, attempts, invoked)"
| "ladder fn (name # rest) attempts invoked =
     (let res = fn name
      in if usable res
         then (Some res, attempts @ [res], invoked @ [name])
         else ladder fn rest (attempts @ [res]) (invoked @ [name]))"

record archive_env =
  csv_row :: "string \<Rightarrow> retailer_row option"
  selectors_json :: "archives_section option"
  perma_api_key :: "string option"
  net :: "string \<Rightarrow> string \<Rightarrow> int \<Rightarrow> ArchiveResult"

definition effective_timeout :: "archive_env \<Rightarrow> int option \<Rightarrow> int" where
  "effective_timeout env t_ms =
     (let arch_cfg = read_selectors_archives (selectors_json env)
      in case t_ms of
           None \<Rightarrow> timeout_ms arch_cfg
         | Some t \<Rightarrow> if t \<noteq> 0 then t else timeout_ms arch_cfg)"

text \<open>The adapter call of the loop body, \<open>FETCHERS[name](target_url, effective_timeout)\<close>.\<close>

definition call_fetcher :: "archive_env \<Rightarrow> string \<Rightarrow> int option \<Rightarrow> string \<Rightarrow> ArchiveResult" where
  "call_fetcher env target_url t_ms name =
     FETCHERS (net env) (perma_api_key env) name target_url (effective_timeout env t_ms)"

definition try_archives_for ::
  "archive_env \<Rightarrow> string \<Rightarrow> string \<Rightarrow> string list option \<Rightarrow> int option \<Rightarrow> bool option
     \<Rightarrow> int \<Rightarrow> ArchiveResult option \<times> ArchiveResult list \<times> string list" where
  "try_archives_for env code target_url priority t_ms prefer_arg limit =
     (let (pri_csv, prefer_csv) =
             read_retailer_archive_overrides (csv_row env code) (selectors_json env);
          order = effective_order priority pri_csv;
          prefer = (case prefer_arg of None \<Rightarrow> prefer_csv | Some b \<Rightarrow> b)
      in ladder (call_fetcher env target_url t_ms) (take (nat (max 1 limit)) order) [] [])"

definition default_limit :: int where
  "default_limit = 6"

subsection \<open>Example environments for the archive ladder\<close>

text \<open>No retailers.csv row and no selectors.json; wayback has no snapshot, ghost answers
  200 with a body of one space, every other network adapter answers 200 with a page.\<close>

definition ex_blank_net :: "string \<Rightarrow> string \<Rightarrow> int \<Rightarrow> ArchiveResult" where
  "ex_blank_net name u t =
     (if name = ''wayback'' then result ''wayback'' u 404 None ''no_snapshot''
      else if name = ''ghost'' then result ''ghost'' u 200 (Some '' '') ''ok''
      else result name u 200 (Some ''<html>oil</html>'') ''ok'')"

definition ex_blank_env :: archive_env where
  "ex_blank_env = \<lparr>csv_row = (\<lambda>code. None), selectors_json = None, perma_api_key = None,
                    net = ex_blank_net\<rparr>"

text \<open>The same, but ghost answers with a page.\<close>

definition ex_page_net :: "string \<Rightarrow> string \<Rightarrow> int \<Rightarrow> ArchiveResult" where
  "ex_page_net name u t =
     (if name = ''wayback'' then result ''wayback'' u 404 None ''no_snapshot''
      else result name u 200 (Some ''<html>oil</html>'') ''ok'')"

definition ex_page_env :: archive_env where
  "ex_page_env = \<lparr>csv_row = (\<lambda>code. None), selectors_json = None, perma_api_key = None,
                   net = ex_page_net\<rparr>"

text \<open>Every network adapter fails.\<close>

definition ex_down_env :: archive_env where
  "ex_down_env = \<lparr>csv_row = (\<lambda>code. None), selectors_json = None, perma_api_key = None,
                   net = (\<lambda>name u t. result name u 599 None ''fetch_error'')\<rparr>"

text \<open>A retailers.csv row for site \<open>ah_nl\<close> that prefers archives and names two known
  providers and an unknown one.\<close>

definition ex_prefer_env :: archive_env where
  "ex_prefer_env =
     \<lparr>csv_row = (\<lambda>code. if code = ''ah_nl''
                   then Some \<lparr>archive_priority = Some ''Arquivo, ukwa ,bogus'',
                              prefer_archive = Some ''True''\<rparr>
                   else None),
      selectors_json = None, perma_api_key = None,
      net = (\<lambda>name u t. result name u 599 None ''fetch_error'')\<rparr>"

section \<open>Result de-duplication (tools/phase1/phase1\_oilbot.py, exporters.py)\<close>

record Row =
  retailer :: string
  product_name :: string
  quantity :: string
  price_eur :: "real option"
  source_url :: string
  snapshot_url :: string
  selector_used :: string
  mode :: string
  stale :: bool

text \<open>
  \<open>_product_key\<close>. The SHA-1 hex digest of the UTF-8 encoding and the text that an
  f-string gives for a float are library functions; they are the parameters \<open>sha1_hex\<close>
  and \<open>str_float\<close>.
\<close>

definition product_key ::
  "(string \<Rightarrow> string) \<Rightarrow> (real \<Rightarrow> string) \<Rightarrow> string \<Rightarrow> string \<Rightarrow> string \<Rightarrow> real option \<Rightarrow> string" where
  "product_key sha1_hex str_float name qty u price =
     sha1_hex (lower (strip name) @ ''|'' @ lower (strip qty) @ ''|'' @ lower (strip u) @ ''|''
               @ (case price of None \<Rightarrow> [] | Some p \<Rightarrow> str_float p))"

definition row_key :: "(string \<Rightarrow> string) \<Rightarrow> (real \<Rightarrow> string) \<Rightarrow> Row \<Rightarrow> string" where
  "row_key sha1_hex str_float r =
     product_key sha1_hex str_float (product_name r) (quantity r) (source_url r) (price_eur r)"

text \<open>The de-duplication loop at the end of \<open>run_one\<close>, with its \<open>seen\<close> set and its
  \<open>uniq\<close> list.\<close>

fun dedupe_loop :: "('r \<Rightarrow> string) \<Rightarrow> string set \<Rightarrow> 'r list \<Rightarrow> 'r list \<Rightarrow> 'r list" where
  "dedupe_loop key seen_keys uniq [] = uniq"
| "dedupe_loop key seen_keys uniq (r # rs) =
     (let k = key r
      in if k \<in> seen_keys then dedupe_loop key seen_keys uniq rs
         else dedupe_loop key (insert k seen_keys) (uniq @ [r]) rs)"

definition dedupe :: "(string \<Rightarrow> string) \<Rightarrow> (real \<Rightarrow> string) \<Rightarrow> Row list \<Rightarrow> Row list" where
  "dedupe sha1_hex str_float all_rows = dedupe_loop (row_key sha1_hex str_float) {} [] all_rows"

text \<open>Position \<open>i\<close> holds the first occurrence of its key, and the key is not in \<open>S\<close>.\<close>

definition first_seen :: "('r \<Rightarrow> string) \<Rightarrow> string set \<Rightarrow> 'r list \<Rightarrow> nat \<Rightarrow> bool" where
  "first_seen key S rs i \<longleftrightarrow> key (rs ! i) \<notin> S \<and> (\<forall>j<i. key (rs ! j) \<noteq> key (rs ! i))"

subsection \<open>Example rows\<close>

definition ex_row_A :: Row where
  "ex_row_A = \<lparr>retailer = ''AH'', product_name = ''Olive Oil'', quantity = ''1 L'',
                price_eur = Some 7.99, source_url = ''https://shop.example/p/1'',
                snapshot_url = [], selector_used = ''card'', mode = ''live'', stale = False\<rparr>"

definition ex_row_B :: Row where
  "ex_row_B = \<lparr>retailer = ''AH'', product_name = ''Sunflower Oil'', quantity = ''1 L'',
                price_eur = Some 2.49, source_url = ''https://shop.example/p/2'',
                snapshot_url = [], selector_used = ''card'', mode = ''live'', stale = False\<rparr>"

definition ex_row_A' :: Row where
  "ex_row_A' = \<lparr>retailer = ''AH'', product_name = '' olive oil '', quantity = ''1 l'',
                 price_eur = Some 7.99, source_url = ''https://shop.example/p/1'',
                 snapshot_url = ''https://web.archive.org/web/2024/https://shop.example/p/1'',
                 selector_used = ''archive_pdp'', mode = ''archive'', stale = True\<rparr>"

definition ex_str_float :: "real \<Rightarrow> string" where
  "ex_str_float p = (if p = 7.99 then ''7.99'' else if p = 2.49 then ''2.49'' else ''0.0'')"

section \<open>URL splitting (urllib.parse, as used by cdx.py and net\_gateway.py)\<close>

text \<open>
  \<open>urlsplit\<close> and \<open>urlunsplit\<close> of the standard library, following CPython 3.11
  (\<open>Lib/urllib/parse.py\<close>) for \<open>str\<close> arguments and the default \<open>scheme=''\<close>,
  \<open>allow_fragments=True\<close>. A raised \<open>ValueError\<close> is the value \<open>Inl ValueError\<close>.
  The validation of a bracketed host (\<open>_check_bracketed_host\<close>, which relies on the
  \<open>ipaddress\<close> module) is the parameter \<open>host_ok\<close>. \<open>_checknetloc\<close> only rejects
  characters whose NFKC normal form contains one of \<open>/?#@:\<close>; no code point below 256
  has such a normal form, so it never raises here.
\<close>

datatype py_error = ValueError

record SplitResult =
  scheme :: string
  netloc :: string
  path :: string
  query :: string
  fragment :: string

definition is_c0_or_space :: "char \<Rightarrow> bool" where
  "is_c0_or_space c \<longleftrightarrow> (of_char c :: nat) \<le> 32"

definition unsafe_byte :: "char \<Rightarrow> bool" where
  "unsafe_byte c \<longleftrightarrow> (of_char c :: nat) \<in> {9, 13, 10}"

definition scheme_chars :: string where
  "scheme_chars =
     ''abcdefghijklmnopqrstuvwxyz'' @ ''ABCDEFGHIJKLMNOPQRSTUVWXYZ'' @ ''0123456789'' @ ''+-.''"

definition is_ascii_alpha :: "char \<Rightarrow> bool" where
  "is_ascii_alpha c \<longleftrightarrow>
     (let n = (of_char c :: nat) in (65 \<le> n \<and> n \<le> 90) \<or> (97 \<le> n \<and> n \<le> 122))"

definition uses_netloc :: "string list" where
  "uses_netloc =
     ['''', ''ftp'', ''http'', ''gopher'', ''nntp'', ''telnet'', ''imap'', ''wais'', ''file'',
      ''mms'', ''https'', ''shttp'', ''snews'', ''prospero'', ''rtsp'', ''rtsps'', ''rtspu'',
      ''rsync'', ''svn'', ''svn+ssh'', ''sftp'', ''nfs'', ''git'', ''git+ssh'', ''ws'', ''wss'']"

text \<open>The scheme test: \<open>i = url.find(':')\<close> is positive, the first character is an ASCII
  letter and every character before the colon is a scheme character.\<close>

definition split_scheme :: "string \<Rightarrow> string \<times> string" where
  "split_scheme u =
     (let pre = takeWhile (\<lambda>c. c \<noteq> CHR '':'') u
      in if CHR '':'' \<in> set u \<and> pre \<noteq> [] \<and> is_ascii_alpha (hd u)
            \<and> list_all (\<lambda>c. c \<in> set scheme_chars) pre
         then (lower pre, tl (dropWhile (\<lambda>c. c \<noteq> CHR '':'') u))
         else ([], u))"

definition netloc_delim :: "char \<Rightarrow> bool" where
  "netloc_delim c \<longleftrightarrow> c = CHR ''/'' \<or> c = CHR ''?'' \<or> c = CHR ''#''"

text \<open>\<open>_splitnetloc(url, 2)\<close>.\<close>

definition splitnetloc :: "string \<Rightarrow> string \<times> string" where
  "splitnetloc u =
     (takeWhile (\<lambda>c. \<not> netloc_delim c) (drop 2 u), dropWhile (\<lambda>c. \<not> netloc_delim c) (drop 2 u))"

text \<open>The bracket checks on the netloc; \<open>True\<close> when no \<open>ValueError\<close> is raised.\<close>

definition brackets_ok :: "(string \<Rightarrow> bool) \<Rightarrow> string \<Rightarrow> bool" where
  "brackets_ok host_ok nl =
     (if (CHR ''['' \<in> set nl \<and> CHR '']'' \<notin> set nl) \<or> (CHR '']'' \<in> set nl \<and> CHR ''['' \<notin> set nl)
      then False
      else if CHR ''['' \<in> set nl \<and> CHR '']'' \<in> set nl
        then host_ok (takeWhile (\<lambda>c. c \<noteq> CHR '']'') (tl (dropWhile (\<lambda>c. c \<noteq> CHR ''['') nl)))
      else True)"

text \<open>\<open>s.split(sep, 1)\<close> when \<open>sep\<close> occurs in \<open>s\<close>.\<close>

definition split_first :: "char \<Rightarrow> string \<Rightarrow> string \<times> string" where
  "split_first sep s = (takeWhile (\<lambda>c. c \<noteq> sep) s, tl (dropWhile (\<lambda>c. c \<noteq> sep) s))"

definition urlsplit :: "(string \<Rightarrow> bool) \<Rightarrow> string \<Rightarrow> py_error + SplitResult" where
  "urlsplit host_ok u0 =
     (let u1 = dropWhile is_c0_or_space u0;
          u2 = filter (\<lambda>c. \<not> unsafe_byte c) u1;
          (sch, u3) = split_scheme u2;
          (nl, u4) = (if take 2 u3 = ''//'' then splitnetloc u3 else ([], u3))
      in if take 2 u3 = ''//'' \<and> \<not> brackets_ok host_ok nl then Inl ValueError
         else
           (let (u5, frag) = (if CHR ''#'' \<in> set u4 then split_first CHR ''#'' u4 else (u4, []));
                (u6, qry) = (if CHR ''?'' \<in> set u5 then split_first CHR ''?'' u5 else (u5, []))
            in Inr \<lparr>scheme = sch, netloc = nl, path = u6, query = qry, fragment = frag\<rparr>))"

definition urlunsplit :: "string \<times> string \<times> string \<times> string \<times> string \<Rightarrow> string" where
  "urlunsplit components =
     (case components of (sch, nl, u, qry, frag) \<Rightarrow>
        (let u1 = (if nl \<noteq> [] \<or> (sch \<noteq> [] \<and> sch \<in> set uses_netloc) \<or> take 2 u = ''//''
                   then ''//'' @ nl @ (if u \<noteq> [] \<and> take 1 u \<noteq> ''/'' then ''/'' @ u else u)
                   else u);
             u2 = (if sch \<noteq> [] then sch @ '':'' @ u1 else u1);
             u3 = (if qry \<noteq> [] then u2 @ ''?'' @ qry else u2)
         in if frag \<noteq> [] then u3 @ ''#'' @ frag else u3))"

section \<open>Archive stability sampler (finder/core/cdx.py)\<close>

definition strip_query_and_fragment :: "(string \<Rightarrow> bool) \<Rightarrow> string \<Rightarrow> py_error + string" where
  "strip_query_and_fragment host_ok u =
     (case urlsplit host_ok u of
        Inl e \<Rightarrow> Inl e
      | Inr sp \<Rightarrow> Inr (urlunsplit (scheme sp, lower (netloc sp), path sp, [], [])))"

text \<open>\<open>sep.join(xs)\<close>.\<close>

fun join :: "string \<Rightarrow> string list \<Rightarrow> string" where
  "join sep [] = []"
| "join sep [x] = x"
| "join sep (x # y # ys) = x @ sep @ join sep (y # ys)"

text \<open>\<open>_parent_urls\<close>: the candidates that the generator yields, in order.\<close>

definition parent_urls :: "(string \<Rightarrow> bool) \<Rightarrow> string \<Rightarrow> py_error + string list" where
  "parent_urls host_ok u =
     (case strip_query_and_fragment host_ok u of
        Inl e \<Rightarrow> Inl e
      | Inr v \<Rightarrow>
          (case urlsplit host_ok v of
             Inl e \<Rightarrow> Inl e
           | Inr sp \<Rightarrow>
               (let segs = filter (\<lambda>s. s \<noteq> []) (split_on CHR ''/'' (path sp))
                in Inr (map (\<lambda>i. urlunsplit
                               (if scheme sp \<noteq> [] then scheme sp else ''https'', netloc sp,
                                if i \<noteq> 0 then ''/'' @ join ''/'' (take i segs) else ''/'',
                                [], []))
                          (rev [0..<Suc (length segs)])))))"

definition group_by_month :: "string list \<Rightarrow> nat" where
  "group_by_month stamps =
     length (remdups (map (\<lambda>ts. take 4 ts @ ''-'' @ take 2 (drop 4 ts))
                          (filter (\<lambda>ts. length ts \<ge> 8) stamps)))"

text \<open>
  The two index adapters. What the index answers is the environment: \<open>stamps c y\<close> is
  the list of snapshot timestamps decoded from a successful answer for URL \<open>c\<close> and
  start year \<open>y\<close>, and the empty list when the request or the decoding fails.
\<close>

definition wayback_cdx :: "(string \<Rightarrow> int \<Rightarrow> string list) \<Rightarrow> string \<Rightarrow> int \<Rightarrow> nat \<times> nat" where
  "wayback_cdx wayback_stamps c start_year =
     (let stamps = wayback_stamps c start_year in (length stamps, group_by_month stamps))"

definition arquivo_cdx :: "(string \<Rightarrow> int \<Rightarrow> string list) \<Rightarrow> string \<Rightarrow> int \<Rightarrow> nat \<times> nat" where
  "arquivo_cdx arquivo_stamps c start_year =
     (let stamps = arquivo_stamps c start_year in (length stamps, group_by_month stamps))"

record archive_summary =
  wayback_hits :: nat
  wayback_months :: nat
  arquivo_hits :: nat
  arquivo_months :: nat
  months_with_snapshots :: nat
  total_hits :: nat

text \<open>The loop of \<open>summarize_archives\<close> over the candidates.\<close>

fun summarize_loop ::
  "(string \<Rightarrow> int \<Rightarrow> string list) \<Rightarrow> (string \<Rightarrow> int \<Rightarrow> string list) \<Rightarrow> int \<Rightarrow> string list
     \<Rightarrow> archive_summary" where
  "summarize_loop ws as start_year [] =
     \<lparr>wayback_hits = 0, wayback_months = 0, arquivo_hits = 0, arquivo_months = 0,
      months_with_snapshots = 0, total_hits = 0\<rparr>"
| "summarize_loop ws as start_year (candidate # rest) =
     (let (w_hits, w_months) = wayback_cdx ws candidate start_year;
          (a_hits, a_months) = arquivo_cdx as candidate start_year;
          months = max w_months a_months;
          hits = w_hits + a_hits
      in if months > 0 \<or> hits > 0
         then \<lparr>wayback_hits = w_hits, wayback_months = w_months, arquivo_hits = a_hits,
               arquivo_months = a_months, months_with_snapshots = months, total_hits = hits\<rparr>
         else summarize_loop ws as start_year rest)"

definition summarize_archives ::
  "(string \<Rightarrow> bool) \<Rightarrow> (string \<Rightarrow> int \<Rightarrow> string list) \<Rightarrow> (string \<Rightarrow> int \<Rightarrow> string list)
     \<Rightarrow> string \<Rightarrow> int \<Rightarrow> py_error + archive_summary" where
  "summarize_archives host_ok ws as u start_year =
     (case parent_urls host_ok u of
        Inl e \<Rightarrow> Inl e
      | Inr cs \<Rightarrow> Inr (summarize_loop ws as start_year cs))"

section \<open>Theorems: blocker classification\<close>

text \<open>
  C5. The classification is a priority cascade in which the first matching signal wins:
  an auth redirect always yields \<open>auth_redirect\<close>, whatever else is set; failing that, a
  detected challenge yields \<open>cf_challenge\<close>; failing that, \<open>cookie_wall\<close> is returned
  exactly when the cookie-wall signal is set together with zero cards and zero
  structured products; failing that, a flagged store-context failure yields
  \<open>store_context_failed\<close>; failing that, fewer than five cards with zero structured
  products yields \<open>too_few_cards\<close>; and otherwise the result is \<open>None\<close>.
\<close>

theorem should_flip_priority_order:
  "(auth_redirect h \<longrightarrow> should_flip_to_archive h c j = Some ''auth_redirect'')
   \<and> (\<not> auth_redirect h \<and> cf_detected h \<longrightarrow>
        should_flip_to_archive h c j = Some ''cf_challenge'')
   \<and> (\<not> auth_redirect h \<and> \<not> cf_detected h \<longrightarrow>
        (should_flip_to_archive h c j = Some ''cookie_wall''
           \<longleftrightarrow> why_flip h = Some ''cookie_wall'' \<and> c = 0 \<and> j = 0))
   \<and> (\<not> auth_redirect h \<and> \<not> cf_detected h
        \<and> \<not> (why_flip h = Some ''cookie_wall'' \<and> c = 0 \<and> j = 0)
        \<and> why_flip h = Some ''store_context_failed'' \<longrightarrow>
        should_flip_to_archive h c j = Some ''store_context_failed'')
   \<and> (\<not> auth_redirect h \<and> \<not> cf_detected h
        \<and> \<not> (why_flip h = Some ''cookie_wall'' \<and> c = 0 \<and> j = 0)
        \<and> why_flip h \<noteq> Some ''store_context_failed'' \<and> c < 5 \<and> j = 0 \<longrightarrow>
        should_flip_to_archive h c j = Some ''too_few_cards'')
   \<and> (\<not> auth_redirect h \<and> \<not> cf_detected h
        \<and> \<not> (why_flip h = Some ''cookie_wall'' \<and> c = 0 \<and> j = 0)
        \<and> why_flip h \<noteq> Some ''store_context_failed'' \<and> \<not> (c < 5 \<and> j = 0) \<longrightarrow>
        should_flip_to_archive h c j = None)"
  by (simp add: should_flip_to_archive_def)

theorem should_flip_priority_order_witness:
  "should_flip_to_archive
      \<lparr>auth_redirect = True, cf_detected = True, why_flip = Some ''cookie_wall''\<rparr> 0 0
     = Some ''auth_redirect''
   \<and> should_flip_to_archive
      \<lparr>auth_redirect = False, cf_detected = True, why_flip = Some ''cookie_wall''\<rparr> 0 0
     = Some ''cf_challenge''
   \<and> should_flip_to_archive
      \<lparr>auth_redirect = False, cf_detected = False, why_flip = Some ''cookie_wall''\<rparr> 0 0
     = Some ''cookie_wall''
   \<and> should_flip_to_archive
      \<lparr>auth_redirect = False, cf_detected = False, why_flip = Some ''store_context_failed''\<rparr> 0 0
     = Some ''store_context_failed''
   \<and> should_flip_to_archive
      \<lparr>auth_redirect = False, cf_detected = False, why_flip = Some ''cookie_wall''\<rparr> 3 0
     = Some ''too_few_cards''
   \<and> should_flip_to_archive
      \<lparr>auth_redirect = False, cf_detected = False, why_flip = Some []\<rparr> 7 2
     = None"
  using
    should_flip_priority_order
      [of "\<lparr>auth_redirect = True, cf_detected = True, why_flip = Some ''cookie_wall''\<rparr>" 0 0]
    should_flip_priority_order
      [of "\<lparr>auth_redirect = False, cf_detected = True, why_flip = Some ''cookie_wall''\<rparr>" 0 0]
    should_flip_priority_order
      [of "\<lparr>auth_redirect = False, cf_detected = False, why_flip = Some ''cookie_wall''\<rparr>" 0 0]
    should_flip_priority_order
      [of "\<lparr>auth_redirect = False, cf_detected = False,
            why_flip = Some ''store_context_failed''\<rparr>" 0 0]
    should_flip_priority_order
      [of "\<lparr>auth_redirect = False, cf_detected = False, why_flip = Some ''cookie_wall''\<rparr>" 3 0]
    should_flip_priority_order
      [of "\<lparr>auth_redirect = False, cf_detected = False, why_flip = Some []\<rparr>" 7 2]
  by simp

section \<open>Theorems: pagination stall tracker\<close>

lemma fold_seen:
  "fold (\<lambda>k s. if k \<noteq> [] then finsert k s else s) ks s
     = s |\<union>| fset_of_list (filter (\<lambda>k. k \<noteq> []) ks)"
  by (induction ks arbitrary: s) auto

lemma fcard_funion_grows:
  "fcard s < fcard (s |\<union>| n) \<longleftrightarrow> \<not> n |\<subseteq>| s"
proof
  assume "fcard s < fcard (s |\<union>| n)"
  then show "\<not> n |\<subseteq>| s" by (auto simp: sup.absorb1)
next
  assume "\<not> n |\<subseteq>| s"
  then have "s |\<subset>| s |\<union>| n" by auto
  then show "fcard s < fcard (s |\<union>| n)" by (rule pfsubset_fcard_mono)
qed

lemma growth_iff:
  "int (fcard (fold (\<lambda>k s. if k \<noteq> [] then finsert k s else s) ks s)) - int (fcard s) < 1
     \<longleftrightarrow> \<not> (\<exists>k\<in>set ks. k \<noteq> [] \<and> k |\<notin>| s)"
proof -
  have "fcard s \<le> fcard (s |\<union>| fset_of_list (filter (\<lambda>k. k \<noteq> []) ks))"
    by (simp add: fcard_mono)
  moreover have "\<not> fset_of_list (filter (\<lambda>k. k \<noteq> []) ks) |\<subseteq>| s \<longleftrightarrow> (\<exists>k\<in>set ks. k \<noteq> [] \<and> k |\<notin>| s)"
    by (auto simp: fset_of_list.rep_eq)
  ultimately show ?thesis
    using fcard_funion_grows[of s "fset_of_list (filter (\<lambda>k. k \<noteq> []) ks)"]
    unfolding fold_seen by linarith
qed

lemma seen_add_batch:
  "seen (snd (add_batch t ks)) = seen t |\<union>| fset_of_list (filter (\<lambda>k. k \<noteq> []) ks)"
  by (simp add: add_batch_def Let_def fold_seen)

lemma min_growth_add_batch: "min_growth (snd (add_batch t ks)) = min_growth t"
  by (simp add: add_batch_def Let_def)

lemma max_stalls_add_batch: "max_stalls (snd (add_batch t ks)) = max_stalls t"
  by (simp add: add_batch_def Let_def)

lemma add_batch_cases:
  assumes "min_growth t = 1"
  shows "add_batch t ks =
     (if \<exists>k\<in>set ks. k \<noteq> [] \<and> k |\<notin>| seen t
      then (True, t\<lparr>seen := seen t |\<union>| fset_of_list (filter (\<lambda>k. k \<noteq> []) ks), stalls := 0\<rparr>)
      else (False, t\<lparr>seen := seen t |\<union>| fset_of_list (filter (\<lambda>k. k \<noteq> []) ks),
                      stalls := stalls t + 1\<rparr>))"
  using assms growth_iff[of ks "seen t"]
  by (auto simp: add_batch_def Let_def fold_seen)

text \<open>
  C6. For a tracker with \<open>min_growth = 1\<close> and \<open>max_stalls = 1\<close>, \<open>add_batch\<close>
  returns \<open>True\<close> and resets the stall counter exactly when the batch holds a
  (non-empty) key that is not yet in the seen set, and returns \<open>False\<close> and increments
  the counter otherwise; \<open>should_stop\<close> holds exactly when the counter has reached
  \<open>max_stalls\<close>. Hence a batch with new keys followed by a batch without any makes
  \<open>should_stop\<close> true after the second batch (and not before).
\<close>

theorem add_batch_growth_and_stall:
  assumes "min_growth t = 1" and "max_stalls t = 1"
  shows "((\<exists>k\<in>set ks. k \<noteq> [] \<and> k |\<notin>| seen t) \<longrightarrow>
            fst (add_batch t ks) = True \<and> stalls (snd (add_batch t ks)) = 0)
       \<and> (\<not> (\<exists>k\<in>set ks. k \<noteq> [] \<and> k |\<notin>| seen t) \<longrightarrow>
            fst (add_batch t ks) = False \<and> stalls (snd (add_batch t ks)) = stalls t + 1)
       \<and> (should_stop t \<longleftrightarrow> stalls t \<ge> max_stalls t)
       \<and> (stalls t = 0
            \<and> (\<exists>k\<in>set b1. k \<noteq> [] \<and> k |\<notin>| seen t)
            \<and> (\<forall>k\<in>set b2. k \<noteq> [] \<longrightarrow> k |\<in>| seen t \<or> k \<in> set b1) \<longrightarrow>
            \<not> should_stop (snd (add_batch t b1))
            \<and> should_stop (snd (add_batch (snd (add_batch t b1)) b2)))"
proof -
  have first: "(\<exists>k\<in>set ks. k \<noteq> [] \<and> k |\<notin>| seen t) \<longrightarrow>
            fst (add_batch t ks) = True \<and> stalls (snd (add_batch t ks)) = 0"
    by (simp add: add_batch_cases[OF assms(1)])
  have second: "\<not> (\<exists>k\<in>set ks. k \<noteq> [] \<and> k |\<notin>| seen t) \<longrightarrow>
            fst (add_batch t ks) = False \<and> stalls (snd (add_batch t ks)) = stalls t + 1"
    by (simp add: add_batch_cases[OF assms(1)])
  have third: "should_stop t \<longleftrightarrow> stalls t \<ge> max_stalls t"
    by (simp add: should_stop_def)
  have fourth: "\<not> should_stop (snd (add_batch t b1))
            \<and> should_stop (snd (add_batch (snd (add_batch t b1)) b2))"
    if a: "stalls t = 0" and b: "\<exists>k\<in>set b1. k \<noteq> [] \<and> k |\<notin>| seen t"
      and c: "\<forall>k\<in>set b2. k \<noteq> [] \<longrightarrow> k |\<in>| seen t \<or> k \<in> set b1"
  proof -
    let ?t1 = "snd (add_batch t b1)"
    have s1: "stalls ?t1 = 0"
      using b by (simp add: add_batch_cases[OF assms(1)])
    have m1: "min_growth ?t1 = 1" and x1: "max_stalls ?t1 = 1"
      using assms by (simp_all add: min_growth_add_batch max_stalls_add_batch)
    have none: "\<not> (\<exists>k\<in>set b2. k \<noteq> [] \<and> k |\<notin>| seen ?t1)"
      using c by (auto simp: seen_add_batch fset_of_list.rep_eq)
    have s2: "stalls (snd (add_batch ?t1 b2)) = 1"
      using none s1 by (simp add: add_batch_cases[OF m1])
    have x2: "max_stalls (snd (add_batch ?t1 b2)) = 1"
      using x1 by (simp add: max_stalls_add_batch)
    show ?thesis
      using s1 x1 s2 x2 by (simp add: should_stop_def)
  qed
  from first second third fourth show ?thesis by blast
qed

text \<open>
  A fresh tracker fed ten new keys and then a batch that repeats two of them (and holds
  an empty key): the first batch grows the set, the second stalls and ends the page walk.
\<close>

theorem add_batch_growth_and_stall_witness:
  "min_growth (PagerTracker_init 1 1) = 1 \<and> max_stalls (PagerTracker_init 1 1) = 1
   \<and> stalls (PagerTracker_init 1 1) = 0
   \<and> (\<exists>k\<in>set [''k0'', ''k1'', ''k2'', ''k3'', ''k4'', ''k5'', ''k6'', ''k7'', ''k8'', ''k9''].
         k \<noteq> [] \<and> k |\<notin>| seen (PagerTracker_init 1 1))
   \<and> fst (add_batch (PagerTracker_init 1 1)
            [''k0'', ''k1'', ''k2'', ''k3'', ''k4'', ''k5'', ''k6'', ''k7'', ''k8'', ''k9''])
   \<and> \<not> should_stop (snd (add_batch (PagerTracker_init 1 1)
            [''k0'', ''k1'', ''k2'', ''k3'', ''k4'', ''k5'', ''k6'', ''k7'', ''k8'', ''k9'']))
   \<and> should_stop (snd (add_batch (snd (add_batch (PagerTracker_init 1 1)
            [''k0'', ''k1'', ''k2'', ''k3'', ''k4'', ''k5'', ''k6'', ''k7'', ''k8'', ''k9'']))
            [''k3'', ''k0'', []]))"
proof -
  have old: "\<forall>k\<in>set [''k3'', ''k0'', []]. k \<noteq> [] \<longrightarrow> k |\<in>| seen (PagerTracker_init 1 1)
         \<or> k \<in> set [''k0'', ''k1'', ''k2'', ''k3'', ''k4'', ''k5'', ''k6'', ''k7'', ''k8'', ''k9'']"
    by simp
  show ?thesis
    using old add_batch_growth_and_stall
      [of "PagerTracker_init 1 1"
          "[''k0'', ''k1'', ''k2'', ''k3'', ''k4'', ''k5'', ''k6'', ''k7'', ''k8'', ''k9'']"
          "[''k0'', ''k1'', ''k2'', ''k3'', ''k4'', ''k5'', ''k6'', ''k7'', ''k8'', ''k9'']"
          "[''k3'', ''k0'', []]"]
    by (simp add: PagerTracker_init_def)
qed

section \<open>Theorems: selector promotion policy\<close>

lemma registry_wins_zero:
  assumes "\<And>k e. r k = Some e \<Longrightarrow> wins e = 0"
    and "fold (\<lambda>c r. r(id' c \<mapsto> \<lparr>reg_css = css c, wins = 0\<rparr>)) cs r k = Some e"
  shows "wins e = 0"
  using assms
proof (induction cs arbitrary: r)
  case Nil
  then show ?case by simp
next
  case (Cons c cs)
  show ?case
  proof (rule Cons.IH[of "r(id' c \<mapsto> \<lparr>reg_css = css c, wins = 0\<rparr>)"])
    fix k' e'
    assume "(r(id' c \<mapsto> \<lparr>reg_css = css c, wins = 0\<rparr>)) k' = Some e'"
    then show "wins e' = 0"
      using Cons.prems(1) by (auto split: if_splits)
  next
    show "fold (\<lambda>c r. r(id' c \<mapsto> \<lparr>reg_css = css c, wins = 0\<rparr>)) cs
            (r(id' c \<mapsto> \<lparr>reg_css = css c, wins = 0\<rparr>)) k = Some e"
      using Cons.prems(2) by (simp only: fold.simps o_apply)
  qed
qed

lemma maybe_promote_never_promotes:
  assumes "maybe_promote store code baseline challengers bm cm = Some (w, e, store')"
  shows "w = baseline \<and> \<not> promoted e"
proof -
  let ?reg = "fold (\<lambda>c r. r(id' c \<mapsto> \<lparr>reg_css = css c, wins = 0\<rparr>)) challengers
                  [id' baseline \<mapsto> \<lparr>reg_css = css baseline, wins = 0\<rparr>]"
  have z: "\<And>k x. ?reg k = Some x \<Longrightarrow> wins x = 0"
    by (rule registry_wins_zero[of "[id' baseline \<mapsto> \<lparr>reg_css = css baseline, wins = 0\<rparr>]"])
       (auto split: if_splits)
  show ?thesis
    using assms z
    by (auto simp: maybe_promote_def Let_def REQUIRED_WINS_def
             split: option.splits if_splits prod.splits)
qed

lemma maybe_promote_regression_resets:
  assumes "maybe_promote store code baseline challengers bm cm = Some (w, e, store')"
    and "fst (best_challenger (shadow_score bm) cm challengers (None, shadow_score bm)) = None"
  shows "w = baseline \<and> active_after e = Some (id' baseline)
         \<and> (\<forall>k n. challenger_wins e k = Some n \<longrightarrow> n = 0)"
  using assms
  by (auto simp: maybe_promote_def Let_def split: option.splits if_splits)

text \<open>
  C1. The claim is that a challenger which beats the baseline's shadow score by at least
  \<open>0.05\<close> and passes all gates in two consecutive calls of \<open>maybe_promote\<close> is the
  active selector and the returned winner on the second call. In the code the registry
  is rebuilt with zero wins at the start of every call, so the win counter never
  exceeds one: in the scenario below (margin \<open>0.06\<close>, all gates passed, two rounds) both
  calls return the baseline, the second call reports no promotion, the challenger's
  counter is one after each round and the saved policy has no active challenger.
\<close>

theorem two_qualifying_rounds_do_not_promote:
  "map_option fst ex_round1 = Some ex_baseline
   \<and> map_option (\<lambda>(w, e, s). challenger_wins e ''ch1'') ex_round1 = Some (Some 1)
   \<and> map_option fst ex_round2 = Some ex_baseline
   \<and> map_option (\<lambda>(w, e, s). promoted e) ex_round2 = Some False
   \<and> map_option (\<lambda>(w, e, s). active_after e) ex_round2 = Some None
   \<and> map_option (\<lambda>(w, e, s). challenger_wins e ''ch1'') ex_round2 = Some (Some 1)
   \<and> map_option (\<lambda>(w, e, s). map_option active (s ''site'')) ex_round2 = Some (Some None)"
  by (simp add: ex_round2_def ex_round1_def maybe_promote_def Let_def load_policy_def
        save_policy_def shadow_score_def gates_pass_def PROMOTE_MARGIN_def REQUIRED_WINS_def
        ex_baseline_def ex_challenger_def ex_baseline_metrics_def ex_challenger_metrics_def)

section \<open>Theorems: archive ladder\<close>

lemma ladder_all_fail:
  "\<forall>n\<in>set names. \<not> usable (fn n) \<Longrightarrow>
     ladder fn names attempts invoked = (None, attempts @ map fn names, invoked @ names)"
  by (induction names arbitrary: attempts invoked) (auto simp: Let_def)

lemma ladder_first_usable:
  "\<forall>n\<in>set pre. \<not> usable (fn n) \<Longrightarrow> usable (fn p) \<Longrightarrow>
     ladder fn (pre @ p # post) attempts invoked
       = (Some (fn p), attempts @ map fn pre @ [fn p], invoked @ pre @ [p])"
  by (induction pre arbitrary: attempts invoked) (auto simp: Let_def)

lemma ladder_prefix:
  "\<exists>k\<le>length names.
     snd (ladder fn names attempts invoked) = (attempts @ map fn (take k names), invoked @ take k names)"
proof (induction names arbitrary: attempts invoked)
  case Nil
  then show ?case by simp
next
  case (Cons n names)
  show ?case
  proof (cases "usable (fn n)")
    case True
    then have "snd (ladder fn (n # names) attempts invoked)
                 = (attempts @ map fn (take 1 (n # names)), invoked @ take 1 (n # names))"
      by (simp add: Let_def)
    then show ?thesis by (intro exI[of _ 1]) simp
  next
    case False
    obtain k where k: "k \<le> length names"
      "snd (ladder fn names (attempts @ [fn n]) (invoked @ [n]))
         = ((attempts @ [fn n]) @ map fn (take k names), (invoked @ [n]) @ take k names)"
      using Cons.IH[of "attempts @ [fn n]" "invoked @ [n]"] by blast
    have "snd (ladder fn (n # names) attempts invoked)
            = (attempts @ map fn (take (Suc k) (n # names)), invoked @ take (Suc k) (n # names))"
      using False k(2) by (simp add: Let_def)
    then show ?thesis using k(1) by (intro exI[of _ "Suc k"]) simp
  qed
qed

lemma lower_char_idem: "lower_char (lower_char c) = lower_char c"
  by (auto simp: lower_char_def Let_def)

lemma lower_idem: "lower (lower s) = lower s"
  by (simp add: lower_def lower_char_idem)


lemma set_cap_known:
  "set (cap_known S xs) = {p \<in> set xs. p \<in> set FETCHER_NAMES \<and> p \<notin> S}"
  by (induction xs arbitrary: S) auto

lemma take_at_least_two:
  assumes "(2::int) \<le> limit"
  shows "take (nat (max 1 limit)) [p1, p2, p3] = p1 # p2 # take (nat (max 1 limit) - 2) [p3]"
proof -
  define n where "n = nat (max 1 limit)"
  have "2 \<le> n" using assms by (simp add: n_def)
  then have "take n [p1, p2, p3] = p1 # p2 # take (n - 2) [p3]"
    by (simp add: take_Cons' diff_diff_eq)
  then show ?thesis by (simp add: n_def)
qed

text \<open>
  C3 (amended). For every call whose effective provider order is \<open>[P1, P2, P3]\<close> and
  whose limit is at least two (the default is six), if P1's adapter returns a failed
  result and P2's adapter returns an ok result whose HTML is not blank (it has a
  character that is not whitespace), \<open>try_archives_for\<close> returns P2's result as the best
  result with the attempt list \<open>[P1's result, P2's result]\<close>, and the adapters invoked are
  exactly P1 and P2, so P3's adapter is never invoked.
\<close>

theorem ladder_stops_at_first_usable:
  assumes "effective_order priority
             (fst (read_retailer_archive_overrides (csv_row env code) (selectors_json env)))
           = [p1, p2, p3]"
    and "2 \<le> limit"
    and "\<not> ok (call_fetcher env u t p1)"
    and "ok (call_fetcher env u t p2)"
    and "\<exists>h. html (call_fetcher env u t p2) = Some h \<and> strip h \<noteq> []"
  shows "try_archives_for env code u priority t prefer_arg limit
           = (Some (call_fetcher env u t p2),
              [call_fetcher env u t p1, call_fetcher env u t p2],
              [p1, p2])"
proof -
  have f1: "\<not> usable (call_fetcher env u t p1)"
    using assms(3) by (simp add: usable_def)
  have f2: "usable (call_fetcher env u t p2)"
    using assms(4,5) by (auto simp: usable_def)
  show ?thesis
    using assms(1) f1 f2
    by (simp add: try_archives_for_def Let_def split_beta take_at_least_two[OF assms(2)])
qed


lemmas ex_arch_defs = try_archives_for_def call_fetcher_def effective_timeout_def FETCHERS_def
  fetch_perma_def result_def read_retailer_archive_overrides_def read_selectors_archives_def
  effective_order_def chosen_priority_def DEFAULT_PRIORITY_def FETCHER_NAMES_def usable_def
  strip_def is_space_def lower_def lower_char_def clean_target_def Let_def

text \<open>
  The hypotheses of the amended C3 hold for the order wayback, ghost, memento when wayback
  has no snapshot and ghost returns a page.
\<close>

theorem ladder_stops_at_first_usable_witness:
  "effective_order (Some [''wayback'', ''ghost'', ''memento''])
      (fst (read_retailer_archive_overrides (csv_row ex_page_env ''site'')
              (selectors_json ex_page_env)))
     = [''wayback'', ''ghost'', ''memento'']
   \<and> (2::int) \<le> 6
   \<and> \<not> ok (call_fetcher ex_page_env ''https://example.com/oils'' None ''wayback'')
   \<and> ok (call_fetcher ex_page_env ''https://example.com/oils'' None ''ghost'')
   \<and> (\<exists>h. html (call_fetcher ex_page_env ''https://example.com/oils'' None ''ghost'') = Some h
          \<and> strip h \<noteq> [])
   \<and> try_archives_for ex_page_env ''site'' ''https://example.com/oils''
        (Some [''wayback'', ''ghost'', ''memento'']) None None 6
      = (Some (call_fetcher ex_page_env ''https://example.com/oils'' None ''ghost''),
         [call_fetcher ex_page_env ''https://example.com/oils'' None ''wayback'',
          call_fetcher ex_page_env ''https://example.com/oils'' None ''ghost''],
         [''wayback'', ''ghost''])"
proof -
  have a: "effective_order (Some [''wayback'', ''ghost'', ''memento''])
      (fst (read_retailer_archive_overrides (csv_row ex_page_env ''site'')
              (selectors_json ex_page_env)))
     = [''wayback'', ''ghost'', ''memento'']"
    by (simp add: ex_arch_defs ex_page_env_def)
  have b: "(2::int) \<le> 6" by simp
  have c: "\<not> ok (call_fetcher ex_page_env ''https://example.com/oils'' None ''wayback'')"
    by (simp add: ex_arch_defs ex_page_env_def ex_page_net_def)
  have d: "ok (call_fetcher ex_page_env ''https://example.com/oils'' None ''ghost'')"
    by (simp add: ex_arch_defs ex_page_env_def ex_page_net_def)
  have e: "\<exists>h. html (call_fetcher ex_page_env ''https://example.com/oils'' None ''ghost'') = Some h
          \<and> strip h \<noteq> []"
    by (simp add: ex_arch_defs ex_page_env_def ex_page_net_def)
  show ?thesis
    using a b c d e ladder_stops_at_first_usable[OF a b c d e, of None] by simp
qed

text \<open>
  C3 as stated fails: with the order wayback, ghost, memento, a failed wayback result and
  an ok ghost result whose HTML is the non-empty string of one space, the ladder does not
  stop at ghost, because the stop test strips the HTML first; memento is invoked and its
  result is returned, with three attempts.
\<close>

theorem blank_html_does_not_stop_ladder:
  "effective_order (Some [''wayback'', ''ghost'', ''memento''])
      (fst (read_retailer_archive_overrides (csv_row ex_blank_env ''site'')
              (selectors_json ex_blank_env)))
     = [''wayback'', ''ghost'', ''memento'']
   \<and> \<not> ok (call_fetcher ex_blank_env ''https://example.com/oils'' None ''wayback'')
   \<and> ok (call_fetcher ex_blank_env ''https://example.com/oils'' None ''ghost'')
   \<and> html (call_fetcher ex_blank_env ''https://example.com/oils'' None ''ghost'') = Some '' ''
   \<and> try_archives_for ex_blank_env ''site'' ''https://example.com/oils''
        (Some [''wayback'', ''ghost'', ''memento'']) None None default_limit
      = (Some (call_fetcher ex_blank_env ''https://example.com/oils'' None ''memento''),
         [call_fetcher ex_blank_env ''https://example.com/oils'' None ''wayback'',
          call_fetcher ex_blank_env ''https://example.com/oils'' None ''ghost'',
          call_fetcher ex_blank_env ''https://example.com/oils'' None ''memento''],
         [''wayback'', ''ghost'', ''memento''])
   \<and> try_archives_for ex_blank_env ''site'' ''https://example.com/oils''
        (Some [''wayback'', ''ghost'', ''memento'']) None None default_limit
      \<noteq> (Some (call_fetcher ex_blank_env ''https://example.com/oils'' None ''ghost''),
         [call_fetcher ex_blank_env ''https://example.com/oils'' None ''wayback'',
          call_fetcher ex_blank_env ''https://example.com/oils'' None ''ghost''],
         [''wayback'', ''ghost''])"
  by (simp add: ex_arch_defs ex_blank_env_def ex_blank_net_def default_limit_def)


lemma try_archives_for_unfold:
  "try_archives_for env code u priority t prefer_arg limit
     = ladder (call_fetcher env u t)
         (take (nat (max 1 limit))
            (effective_order priority
               (fst (read_retailer_archive_overrides (csv_row env code) (selectors_json env)))))
         [] []"
  by (simp add: try_archives_for_def Let_def split_beta)

lemma default_order: "cap_known {} (map lower DEFAULT_PRIORITY) = DEFAULT_PRIORITY"
  by (simp add: DEFAULT_PRIORITY_def FETCHER_NAMES_def lower_def lower_char_def Let_def)

text \<open>
  C10. A call attempts at most \<open>max(1, limit)\<close> providers. With the default limit of six
  and the default seven-entry priority list as the chosen order, \<open>perma\<close>, the last
  entry, is never invoked; when the six providers before it all fail, exactly those six
  are attempted and the call returns no best result.
\<close>

theorem attempts_bounded_by_limit:
  "length (fst (snd (try_archives_for env code u priority t prefer_arg limit))) \<le> nat (max 1 limit)
   \<and> length (snd (snd (try_archives_for env code u priority t prefer_arg limit)))
        \<le> nat (max 1 limit)
   \<and> (chosen_priority priority
         (fst (read_retailer_archive_overrides (csv_row env code) (selectors_json env)))
        = DEFAULT_PRIORITY \<longrightarrow>
       ''perma'' \<notin> set (snd (snd
          (try_archives_for env code u priority t prefer_arg default_limit)))
       \<and> ((\<forall>n\<in>set (butlast DEFAULT_PRIORITY). \<not> usable (call_fetcher env u t n)) \<longrightarrow>
            try_archives_for env code u priority t prefer_arg default_limit
              = (None, map (call_fetcher env u t) (butlast DEFAULT_PRIORITY),
                 butlast DEFAULT_PRIORITY)))"
proof -
  let ?pri = "fst (read_retailer_archive_overrides (csv_row env code) (selectors_json env))"
  let ?fn = "call_fetcher env u t"
  have bound: "length (fst (snd (try_archives_for env code u priority t prefer_arg lim)))
                 \<le> nat (max 1 lim)
               \<and> length (snd (snd (try_archives_for env code u priority t prefer_arg lim)))
                 \<le> nat (max 1 lim)" for lim
  proof -
    let ?names = "take (nat (max 1 lim)) (effective_order priority ?pri)"
    obtain k where k: "k \<le> length ?names"
      "snd (ladder ?fn ?names [] []) = ([] @ map ?fn (take k ?names), [] @ take k ?names)"
      using ladder_prefix[of ?names ?fn "[]" "[]"] by blast
    have "length ?names \<le> nat (max 1 lim)" by simp
    with k show ?thesis by (simp add: try_archives_for_unfold)
  qed
  have perma: "''perma'' \<notin> set (snd (snd
          (try_archives_for env code u priority t prefer_arg default_limit)))
       \<and> ((\<forall>n\<in>set (butlast DEFAULT_PRIORITY). \<not> usable (?fn n)) \<longrightarrow>
            try_archives_for env code u priority t prefer_arg default_limit
              = (None, map ?fn (butlast DEFAULT_PRIORITY), butlast DEFAULT_PRIORITY))"
    if d: "chosen_priority priority ?pri = DEFAULT_PRIORITY"
  proof -
    have "map lower DEFAULT_PRIORITY = DEFAULT_PRIORITY"
      by (simp add: DEFAULT_PRIORITY_def lower_def lower_char_def Let_def)
    then have ord: "effective_order priority ?pri = DEFAULT_PRIORITY"
      using d default_order by (simp add: effective_order_def)
    have six: "take (nat (max 1 default_limit)) DEFAULT_PRIORITY = butlast DEFAULT_PRIORITY"
      by (simp add: default_limit_def DEFAULT_PRIORITY_def)
    let ?names = "butlast DEFAULT_PRIORITY"
    have run: "try_archives_for env code u priority t prefer_arg default_limit
                 = ladder ?fn ?names [] []"
      by (simp add: try_archives_for_unfold ord six)
    obtain k where k: "snd (ladder ?fn ?names [] []) = ([] @ map ?fn (take k ?names), [] @ take k ?names)"
      using ladder_prefix[of ?names ?fn "[]" "[]"] by blast
    have "''perma'' \<notin> set ?names" by (simp add: DEFAULT_PRIORITY_def)
    then have "''perma'' \<notin> set (take k ?names)" by (meson in_set_takeD)
    with k run have p1: "''perma'' \<notin> set (snd (snd
          (try_archives_for env code u priority t prefer_arg default_limit)))" by simp
    have p2: "try_archives_for env code u priority t prefer_arg default_limit
              = (None, map ?fn ?names, ?names)" if "\<forall>n\<in>set ?names. \<not> usable (?fn n)"
      using ladder_all_fail[OF that, of "[]" "[]"] run by simp
    from p1 p2 show ?thesis by blast
  qed
  from bound[of limit] perma show ?thesis by blast
qed

text \<open>
  With no override, no CSV row and no selectors.json the chosen order is the default
  list; when every network adapter fails, the six providers before \<open>perma\<close> are invoked.
\<close>

theorem attempts_bounded_by_limit_witness:
  "chosen_priority None
      (fst (read_retailer_archive_overrides (csv_row ex_down_env ''site'')
              (selectors_json ex_down_env))) = DEFAULT_PRIORITY
   \<and> \<not> usable (call_fetcher ex_down_env ''https://example.com/oils'' None ''archivetoday'')
   \<and> ''perma'' \<notin> set (snd (snd
          (try_archives_for ex_down_env ''site'' ''https://example.com/oils'' None None None
             default_limit)))
   \<and> snd (snd (try_archives_for ex_down_env ''site'' ''https://example.com/oils'' None None None
             default_limit))
        = [''wayback'', ''ghost'', ''memento'', ''arquivo'', ''ukwa'', ''archivetoday'']"
proof -
  have a: "chosen_priority None
      (fst (read_retailer_archive_overrides (csv_row ex_down_env ''site'')
              (selectors_json ex_down_env))) = DEFAULT_PRIORITY"
    by (simp add: ex_arch_defs ex_down_env_def)
  have b: "\<forall>n\<in>set (butlast DEFAULT_PRIORITY).
         \<not> usable (call_fetcher ex_down_env ''https://example.com/oils'' None n)"
    by (simp add: usable_def call_fetcher_def FETCHERS_def fetch_perma_def result_def
          ex_down_env_def)
  have c: "\<not> usable (call_fetcher ex_down_env ''https://example.com/oils'' None ''archivetoday'')"
    using b by (simp add: DEFAULT_PRIORITY_def)
  show ?thesis
    using a b c
      attempts_bounded_by_limit[of ex_down_env "''site''" "''https://example.com/oils''"
        None None None default_limit]
    by (simp add: DEFAULT_PRIORITY_def)
qed


lemma parse_priority_lower: "map lower (parse_priority raw) = parse_priority raw"
  by (simp add: parse_priority_def lower_idem)

lemma cap_known_front:
  assumes "set xs \<subseteq> P"
  shows "i < length (cap_known S xs) \<Longrightarrow> cap_known S xs ! i \<in> P"
  using assms set_cap_known[of S xs] by (metis (no_types, lifting) mem_Collect_eq nth_mem subsetD)

text \<open>
  C2. When the site's CSV row sets \<open>prefer_archive\<close> to true and no priority override is
  passed, the provider order that \<open>try_archives_for\<close> computes before the first attempt
  begins with the known providers named in the site's archive-priority preference (in
  preference order, repeats dropped): every known provider the preference names is in
  the order, and no provider outside the preference precedes one that it names.
\<close>

theorem preferred_providers_lead_the_order:
  assumes "csv_row env code = Some r"
    and "lower (strip (case prefer_archive r of None \<Rightarrow> [] | Some s \<Rightarrow> s)) = ''true''"
    and "priority = None"
  shows "let pref = parse_priority (strip (case archive_priority r of None \<Rightarrow> [] | Some a \<Rightarrow> a));
             order = effective_order priority
                (fst (read_retailer_archive_overrides (csv_row env code) (selectors_json env)))
         in snd (read_retailer_archive_overrides (csv_row env code) (selectors_json env))
            \<and> try_archives_for env code u priority t prefer_arg limit
                = ladder (call_fetcher env u t) (take (nat (max 1 limit)) order) [] []
            \<and> take (length (cap_known {} pref)) order = cap_known {} pref
            \<and> (\<forall>p\<in>set pref. p \<in> set FETCHER_NAMES \<longrightarrow> p \<in> set order)
            \<and> (\<forall>i j. i < length order \<and> j < length order
                  \<and> order ! i \<in> set pref \<and> order ! j \<notin> set pref \<longrightarrow> i < j)"
proof -
  define raw where "raw = strip (case archive_priority r of None \<Rightarrow> [] | Some a \<Rightarrow> a)"
  define pref where "pref = parse_priority raw"
  define order where "order = effective_order priority
      (fst (read_retailer_archive_overrides (csv_row env code) (selectors_json env)))"
  have pf: "snd (read_retailer_archive_overrides (csv_row env code) (selectors_json env))"
    using assms(1,2) by (simp add: read_retailer_archive_overrides_def Let_def)
  have run: "try_archives_for env code u priority t prefer_arg limit
                = ladder (call_fetcher env u t) (take (nat (max 1 limit)) order) [] []"
    by (simp add: try_archives_for_unfold order_def)
  have front: "take (length (cap_known {} pref)) order = cap_known {} pref
            \<and> (\<forall>p\<in>set pref. p \<in> set FETCHER_NAMES \<longrightarrow> p \<in> set order)
            \<and> (\<forall>i j. i < length order \<and> j < length order
                  \<and> order ! i \<in> set pref \<and> order ! j \<notin> set pref \<longrightarrow> i < j)"
  proof (cases "pref = []")
    case True
    then show ?thesis by simp
  next
    case False
    then have "raw \<noteq> []"
      by (auto simp: pref_def parse_priority_def strip_def)
    then have "fst (read_retailer_archive_overrides (csv_row env code) (selectors_json env)) = pref"
      using assms(1) by (simp add: read_retailer_archive_overrides_def Let_def raw_def pref_def)
    then have ord: "order = cap_known {} pref"
      using False assms(3) parse_priority_lower[of raw]
      by (simp add: order_def effective_order_def chosen_priority_def pref_def)
    have "\<And>j. j < length order \<Longrightarrow> order ! j \<in> set pref"
      unfolding ord by (rule cap_known_front[of pref "set pref" _ "{}"]) simp_all
    then show ?thesis
      using ord by (auto simp: set_cap_known)
  qed
  show ?thesis
    using pf run front by (simp add: Let_def raw_def[symmetric] pref_def[symmetric] order_def[symmetric])
qed

text \<open>
  A row with \<open>prefer_archive = True\<close> and the preference \<open>Arquivo, ukwa ,bogus\<close> gives the
  order arquivo, ukwa.
\<close>

theorem preferred_providers_lead_the_order_witness:
  "csv_row ex_prefer_env ''ah_nl''
     = Some \<lparr>archive_priority = Some ''Arquivo, ukwa ,bogus'', prefer_archive = Some ''True''\<rparr>
   \<and> lower (strip ''True'') = ''true''
   \<and> parse_priority (strip ''Arquivo, ukwa ,bogus'') = [''arquivo'', ''ukwa'', ''bogus'']
   \<and> effective_order None
        (fst (read_retailer_archive_overrides (csv_row ex_prefer_env ''ah_nl'')
                (selectors_json ex_prefer_env))) = [''arquivo'', ''ukwa'']
   \<and> snd (snd (try_archives_for ex_prefer_env ''ah_nl'' ''https://example.com/oils'' None None None
                  default_limit)) = [''arquivo'', ''ukwa'']"
proof -
  have a: "csv_row ex_prefer_env ''ah_nl''
     = Some \<lparr>archive_priority = Some ''Arquivo, ukwa ,bogus'', prefer_archive = Some ''True''\<rparr>"
    by (simp add: ex_prefer_env_def)
  have b: "lower (strip (case prefer_archive
              \<lparr>archive_priority = Some ''Arquivo, ukwa ,bogus'', prefer_archive = Some ''True''\<rparr>
            of None \<Rightarrow> [] | Some s \<Rightarrow> s)) = ''true''"
    by code_simp
  have c: "parse_priority (strip ''Arquivo, ukwa ,bogus'') = [''arquivo'', ''ukwa'', ''bogus'']"
    by code_simp
  have d: "effective_order None
        (fst (read_retailer_archive_overrides (csv_row ex_prefer_env ''ah_nl'')
                (selectors_json ex_prefer_env))) = [''arquivo'', ''ukwa'']"
    by code_simp
  have e: "ladder (call_fetcher ex_prefer_env ''https://example.com/oils'' None)
             [''arquivo'', ''ukwa''] [] []
           = (None, map (call_fetcher ex_prefer_env ''https://example.com/oils'' None)
                [''arquivo'', ''ukwa''], [''arquivo'', ''ukwa''])"
    by (simp add: usable_def call_fetcher_def FETCHERS_def result_def ex_prefer_env_def Let_def)
  show ?thesis
    using a b c d e
      preferred_providers_lead_the_order[OF a b refl,
        of "''https://example.com/oils''" None None default_limit]
    by (simp add: Let_def default_limit_def)
qed

section \<open>Theorems: result de-duplication\<close>

lemma dedupe_loop_acc:
  "dedupe_loop key S uniq rs = uniq @ dedupe_loop key S [] rs"
proof (induction rs arbitrary: S uniq)
  case Nil
  then show ?case by simp
next
  case (Cons r rs)
  show ?case
    using Cons.IH[of S uniq] Cons.IH[of "insert (key r) S" "uniq @ [r]"]
      Cons.IH[of "insert (key r) S" "[r]"]
    by (simp add: Let_def)
qed

lemma first_seen_Suc:
  "first_seen key S (r # rs) (Suc i) \<longleftrightarrow>
     (if key r \<in> S then first_seen key S rs i else first_seen key (insert (key r) S) rs i)"
  by (auto simp: first_seen_def less_Suc_eq_0_disj)

lemma dedupe_loop_first_seen:
  "dedupe_loop key S [] rs = map ((!) rs) (filter (first_seen key S rs) [0..<length rs])"
proof (induction rs arbitrary: S)
  case Nil
  then show ?case by simp
next
  case (Cons r rs)
  have idx: "[0..<Suc (length rs)] = 0 # map Suc [0..<length rs]"
    by (simp add: upt_conv_Cons map_Suc_upt del: upt_Suc)
  have zero: "first_seen key S (r # rs) 0 \<longleftrightarrow> key r \<notin> S"
    by (simp add: first_seen_def)
  show ?case
  proof (cases "key r \<in> S")
    case True
    then show ?thesis
      using Cons.IH[of S]
      by (simp add: idx zero filter_map comp_def first_seen_Suc Let_def del: upt_Suc)
  next
    case False
    then show ?thesis
      using Cons.IH[of "insert (key r) S"] dedupe_loop_acc[of key "insert (key r) S" "[r]" rs]
      by (simp add: idx zero filter_map comp_def first_seen_Suc Let_def del: upt_Suc)
  qed
qed


lemma dedupe_loop_Cons:
  "dedupe_loop key S [] (r # rs) =
     (if key r \<in> S then dedupe_loop key S [] rs
      else r # dedupe_loop key (insert (key r) S) [] rs)"
  using dedupe_loop_acc[of key "insert (key r) S" "[r]" rs] by (simp add: Let_def)

lemma dedupe_loop_subseq: "subseq (dedupe_loop key S [] rs) rs"
  by (induction rs arbitrary: S)
     (auto simp: dedupe_loop_Cons simp del: dedupe_loop.simps(2) intro: list_emb_Cons)

lemma dedupe_loop_keys:
  "set (map key (dedupe_loop key S [] rs)) = set (map key rs) - S"
  by (induction rs arbitrary: S) (auto simp: dedupe_loop_Cons simp del: dedupe_loop.simps(2))

lemma dedupe_loop_distinct: "distinct (map key (dedupe_loop key S [] rs))"
proof (induction rs arbitrary: S)
  case Nil
  then show ?case by simp
next
  case (Cons r rs)
  have "key r \<notin> set (map key (dedupe_loop key (insert (key r) S) [] rs))"
    unfolding dedupe_loop_keys by simp
  then show ?case
    using Cons.IH by (simp add: dedupe_loop_Cons del: dedupe_loop.simps(2))
qed

text \<open>
  C7. The final de-duplication is stable and keyed by the row's product key: for every
  list of rows the output consists of exactly the rows at the positions where a key
  occurs for the first time, in their original order; it is a subsequence of the input,
  its keys are pairwise distinct and they are the keys of the input. In particular
  \<open>[A, B, A']\<close> with equal keys for \<open>A\<close> and \<open>A'\<close> and another key for \<open>B\<close> gives \<open>[A, B]\<close>.
\<close>

theorem dedupe_keeps_first_occurrences:
  "let key = row_key sha1_hex str_float; out = dedupe sha1_hex str_float rows
   in out = map ((!) rows)
              (filter (\<lambda>i. \<forall>j<i. key (rows ! j) \<noteq> key (rows ! i)) [0..<length rows])
      \<and> subseq out rows
      \<and> distinct (map key out)
      \<and> set (map key out) = set (map key rows)
      \<and> (key a = key a' \<and> key b \<noteq> key a \<longrightarrow> dedupe sha1_hex str_float [a, b, a'] = [a, b])"
proof -
  let ?key = "row_key sha1_hex str_float"
  have "dedupe_loop ?key {} [] rows
          = map ((!) rows) (filter (first_seen ?key {} rows) [0..<length rows])"
    by (rule dedupe_loop_first_seen)
  moreover have "first_seen ?key {} rows = (\<lambda>i. \<forall>j<i. ?key (rows ! j) \<noteq> ?key (rows ! i))"
    by (simp add: first_seen_def fun_eq_iff)
  ultimately have a: "dedupe sha1_hex str_float rows = map ((!) rows)
              (filter (\<lambda>i. \<forall>j<i. ?key (rows ! j) \<noteq> ?key (rows ! i)) [0..<length rows])"
    by (simp add: dedupe_def)
  have b: "subseq (dedupe sha1_hex str_float rows) rows"
    by (simp add: dedupe_def dedupe_loop_subseq)
  have c: "distinct (map ?key (dedupe sha1_hex str_float rows))"
    by (simp add: dedupe_def dedupe_loop_distinct)
  have d: "set (map ?key (dedupe sha1_hex str_float rows)) = set (map ?key rows)"
    unfolding dedupe_def dedupe_loop_keys by simp
  have e: "?key a = ?key a' \<and> ?key b \<noteq> ?key a \<longrightarrow> dedupe sha1_hex str_float [a, b, a'] = [a, b]"
    by (auto simp: dedupe_def dedupe_loop_Cons simp del: dedupe_loop.simps(2))
  from a b c d e show ?thesis by (simp only: Let_def)
qed

text \<open>
  Two rows that differ in letter case, surrounding blanks and provenance have the same
  key; the archived duplicate is dropped.
\<close>

theorem dedupe_keeps_first_occurrences_witness:
  "row_key (\<lambda>s. s) ex_str_float ex_row_A = row_key (\<lambda>s. s) ex_str_float ex_row_A'
   \<and> row_key (\<lambda>s. s) ex_str_float ex_row_B \<noteq> row_key (\<lambda>s. s) ex_str_float ex_row_A
   \<and> ex_row_A \<noteq> ex_row_A'
   \<and> dedupe (\<lambda>s. s) ex_str_float [ex_row_A, ex_row_B, ex_row_A'] = [ex_row_A, ex_row_B]"
proof -
  have a: "row_key (\<lambda>s. s) ex_str_float ex_row_A = row_key (\<lambda>s. s) ex_str_float ex_row_A'"
    by code_simp
  have b: "row_key (\<lambda>s. s) ex_str_float ex_row_B \<noteq> row_key (\<lambda>s. s) ex_str_float ex_row_A"
    by code_simp
  have c: "ex_row_A \<noteq> ex_row_A'"
    by (simp add: ex_row_A_def ex_row_A'_def)
  show ?thesis
    using a b c
      dedupe_keeps_first_occurrences[of "\<lambda>s. s" ex_str_float "[ex_row_A, ex_row_B, ex_row_A']"
        ex_row_A ex_row_A' ex_row_B, unfolded Let_def]
    by blast
qed

end
